theory Spec2Isabelle
  imports Main "HOL-Library.AList"
begin

section \<open>Settings and command sets of send\_config.py\<close>

text \<open>
  The module-level constants of the script (lines 29-43). They are edited by the operator
  before a run, so the model takes them as a record; \<open>shipped_settings\<close> holds the values
  the file is distributed with.
\<close>

record settings =
  REMOVE_DEFAULT_PROFILE :: bool
  DEFAULT_PROFILE_NAME :: string
  PROFILE_NAME :: string
  SSM_URL :: string
  TOKEN :: string
  DEVICE_LIST :: string

definition shipped_settings :: settings where
  "shipped_settings =
     \<lparr>REMOVE_DEFAULT_PROFILE = True, DEFAULT_PROFILE_NAME = ''CiscoTAC-1'',
      PROFILE_NAME = '''', SSM_URL = '''', TOKEN = '''', DEVICE_LIST = ''''\<rparr>"

text \<open>Lines 50, 53-63 and 66: the three command sets, built from the settings.\<close>

definition REMOVE_SSM_CONFIG :: "settings \<Rightarrow> string list" where
  "REMOVE_SSM_CONFIG cfg = [''call-home'', ''no profile '' @ DEFAULT_PROFILE_NAME cfg]"

definition SSM_CONFIG :: "settings \<Rightarrow> string list" where
  "SSM_CONFIG cfg =
     [''call-home'',
      ''no http secure server-identity-check'',
      ''profile '' @ PROFILE_NAME cfg,
      ''reporting smart-licensing-data'',
      ''destination transport-method http'',
      ''destination address http '' @ SSM_URL cfg,
      ''destination preferred-msg-format xml'',
      ''active'',
      ''exit'']"

definition LICENSE_REGISTER_COMMAND :: "settings \<Rightarrow> string" where
  "LICENSE_REGISTER_COMMAND cfg = ''license smart register idtoken '' @ TOKEN cfg"

section \<open>Exceptions\<close>

text \<open>
  The exceptions that can leave a function of the script. \<open>OSError\<close> is what \<open>open\<close>
  raises on an unreadable device list; the two scrapli classes are the ones
  \<open>connectSSH\<close> catches, each carrying its message (\<open>str(e)\<close>), the second being what
  the driver raises when acquiring a privilege level fails;
  \<open>OtherScrapliError\<close> stands for every other exception the driver raises (a timeout,
  a lost connection, ...), none of which the script handles;
  \<open>MarkupError\<close> is what the console raises for a text it cannot render;
  \<open>AttributeError\<close> is Python's error for a method call on \<open>None\<close>.
\<close>

datatype exn =
    OSError
  | ScrapliAuthenticationFailed string
  | ScrapliPrivilegeError string
  | OtherScrapliError string
  | MarkupError
  | AttributeError

section \<open>Reading the device list\<close>

text \<open>
  Python's \<open>str.strip()\<close> removes leading and trailing whitespace. A \<open>char\<close> is read as
  a code point below 256; the whitespace code points in that range are 9-13, 28-32, 133
  and 160.
\<close>

definition is_space :: "char \<Rightarrow> bool" where
  "is_space c =
     (let n = (of_char c :: nat)
      in (9 \<le> n \<and> n \<le> 13) \<or> (28 \<le> n \<and> n \<le> 32) \<or> n = 133 \<or> n = 160)"

definition strip :: "string \<Rightarrow> string" where
  "strip s = rev (dropWhile is_space (rev (dropWhile is_space s)))"

text \<open>
  The file system is a map from a path to the lines that iterating over the opened file
  yields; a path outside its domain cannot be opened.
\<close>

type_synonym filesystem = "string \<rightharpoonup> string list"

text \<open>
  Lines 80-91, the loop over the lines of the file. The standard library's \<open>ip_address\<close>
  is a parameter: \<open>ip_address line\<close> is \<open>True\<close> when the call returns and \<open>False\<close>
  when it raises \<open>ValueError\<close>.
\<close>

fun classify_lines ::
  "(string \<Rightarrow> bool) \<Rightarrow> string list \<Rightarrow> string list \<Rightarrow> string list \<Rightarrow> string list \<times> string list"
where
  "classify_lines ip_address [] valid_ips invalid_ips = (valid_ips, invalid_ips)"
| "classify_lines ip_address (raw # rest) valid_ips invalid_ips =
     (let line = strip raw
      in if line = [] then classify_lines ip_address rest valid_ips invalid_ips
         else if ip_address line
           then classify_lines ip_address rest (valid_ips @ [line]) invalid_ips
           else classify_lines ip_address rest valid_ips (invalid_ips @ [line]))"

definition loadDeviceList ::
  "(string \<Rightarrow> bool) \<Rightarrow> settings \<Rightarrow> filesystem \<Rightarrow> exn + (string list \<times> string list)"
where
  "loadDeviceList ip_address cfg fs =
     (case fs (DEVICE_LIST cfg) of
        None \<Rightarrow> Inl OSError
      | Some file \<Rightarrow> Inr (classify_lines ip_address file [] []))"

text \<open>
  A validator to evaluate the model with: it accepts the dotted-quad IPv4 literals
  (four decimal fields of one to three digits, each at most 255, no leading zero), all
  of which the standard library accepts too. The theorems below hold for every validator.
\<close>

fun split_dots :: "string \<Rightarrow> string \<Rightarrow> string list" where
  "split_dots [] field = [field]"
| "split_dots (c # cs) field =
     (if c = CHR ''.'' then field # split_dots cs [] else split_dots cs (field @ [c]))"

definition is_digit :: "char \<Rightarrow> bool" where
  "is_digit c = (48 \<le> (of_char c :: nat) \<and> (of_char c :: nat) \<le> 57)"

definition decimal :: "string \<Rightarrow> nat" where
  "decimal s = foldl (\<lambda>n c. 10 * n + (of_char c - 48)) 0 s"

definition octet :: "string \<Rightarrow> bool" where
  "octet s = (s \<noteq> [] \<and> length s \<le> 3 \<and> list_all is_digit s \<and> decimal s \<le> 255
               \<and> (length s = 1 \<or> hd s \<noteq> CHR ''0''))"

definition dotted_quad :: "string \<Rightarrow> bool" where
  "dotted_quad s = (let fields = split_dots s [] in length fields = 4 \<and> list_all octet fields)"

text \<open>
  The lines of the file that are not blank, trimmed, in the order of the file: what the
  design calls the non-blank input lines.
\<close>

definition nonblank_lines :: "string list \<Rightarrow> string list" where
  "nonblank_lines file = filter (\<lambda>l. l \<noteq> []) (map strip file)"

section \<open>The console\<close>

text \<open>
  The console renders markup in every text it prints and raises \<open>MarkupError\<close> for a
  closing tag that closes nothing. The renderer is an external library and a
  parameter: \<open>renders text\<close> is \<open>True\<close> when printing \<open>text\<close> returns. Two messages
  of \<open>updateConfiguration\<close> hold data, the address (line 143) and the name of the
  default profile (lines 159-161); every other message is a literal without a closing
  tag, and printing it returns.
\<close>

definition console_print :: "(string \<Rightarrow> bool) \<Rightarrow> string \<Rightarrow> exn + unit" where
  "console_print renders text = (if renders text then Inr () else Inl MarkupError)"

definition working_on :: "string \<Rightarrow> string" where
  "working_on ip = ''\<newline>[bold]> Working on '' @ ip"

definition removing_default :: "settings \<Rightarrow> string" where
  "removing_default cfg = ''Removing default call-home profile '' @ DEFAULT_PROFILE_NAME cfg"

text \<open>
  A renderer to evaluate the model with: it accepts the texts in which no \<open>[\<close> is
  followed by \<open>/\<close>. Such a text holds no closing tag, so the console prints it; of the
  other texts the only one used below is a message that ends in \<open>[/]\<close> with no tag
  open, which the console rejects as well.
\<close>

fun has_closing_tag :: "string \<Rightarrow> bool" where
  "has_closing_tag (a # b # cs) = ((a = CHR ''['' \<and> b = CHR ''/'') \<or> has_closing_tag (b # cs))"
| "has_closing_tag cs = False"

definition plain_markup :: "string \<Rightarrow> bool" where
  "plain_markup text = (\<not> has_closing_tag text)"

section \<open>The driver\<close>

text \<open>
  The keyword arguments \<open>connectSSH\<close> passes to \<open>IOSXEDriver\<close> (lines 103-120). A key that
  the dictionary may lack is an option; \<open>transport_options\<close> is the nested dictionary.
\<close>

record driver =
  host :: string
  auth_username :: string
  auth_password :: string
  auth_strict_key :: bool
  auth_secondary :: "string option"
  transport_options :: "(string \<times> string list) list"

text \<open>The \<open>Response\<close> object of a stage: the two attributes the script reads.\<close>

record response =
  failed :: bool
  result :: string

text \<open>
  The driver is an external library. Its behaviour is a parameter: each operation maps
  the state \<open>'w\<close> of the world (network and devices) to an outcome and a new state, and
  each of the four either returns or raises.
\<close>

record 'w transport =
  t_open :: "driver \<Rightarrow> 'w \<Rightarrow> (exn + unit) \<times> 'w"
  t_send_configs :: "driver \<Rightarrow> string list \<Rightarrow> 'w \<Rightarrow> (exn + response) \<times> 'w"
  t_send_command :: "driver \<Rightarrow> string \<Rightarrow> 'w \<Rightarrow> (exn + response) \<times> 'w"
  t_close :: "driver \<Rightarrow> 'w \<Rightarrow> (exn + unit) \<times> 'w"

text \<open>The calls made on the driver, in order, each with its outcome.\<close>

datatype event =
    EvOpen driver "exn + unit"
  | EvSendConfigs driver "string list" "exn + response"
  | EvSendCommand driver string "exn + response"
  | EvClose driver "exn + unit"

text \<open>Python's truth value of an optional string: \<open>None\<close> and \<open>""\<close> are false.\<close>

definition truthy :: "string option \<Rightarrow> bool" where
  "truthy s = (case s of None \<Rightarrow> False | Some t \<Rightarrow> t \<noteq> [])"

text \<open>Lines 103-120: the connection parameters.\<close>

definition device_params :: "string \<Rightarrow> string \<Rightarrow> string \<Rightarrow> string option \<Rightarrow> driver" where
  "device_params device user password enable_password =
     \<lparr>host = device,
      auth_username = user,
      auth_password = password,
      auth_strict_key = False,
      auth_secondary = (if truthy enable_password then enable_password else None),
      transport_options =
        [(''open_cmd'',
          [''-o'', ''KexAlgorithms=+diffie-hellman-group-exchange-sha1'',
           ''-o'', ''Ciphers=+aes256-cbc''])]\<rparr>"

text \<open>
  Lines 98-129. The result is the pair \<open>(conn, error)\<close> of the source, with \<open>None\<close> as in
  Python, or the exception that \<open>conn.open()\<close> raised and no handler caught.
\<close>

definition connectSSH ::
  "'w transport \<Rightarrow> string \<Rightarrow> string \<Rightarrow> string \<Rightarrow> string option \<Rightarrow> 'w
     \<Rightarrow> (exn + (driver option \<times> string option)) \<times> 'w \<times> event list"
where
  "connectSSH tr device user password enable_password w =
     (let conn = device_params device user password enable_password;
          (r, w') = t_open tr conn w;
          log = [EvOpen conn r]
      in case r of
           Inr u \<Rightarrow> (Inr (Some conn, None), w', log)
         | Inl (ScrapliAuthenticationFailed m) \<Rightarrow> (Inr (None, Some m), w', log)
         | Inl (ScrapliPrivilegeError m) \<Rightarrow> (Inr (None, Some m), w', log)
         | Inl e \<Rightarrow> (Inl e, w', log))"

section \<open>Pushing the configuration\<close>

text \<open>
  The \<open>status\<close> dictionary of \<open>updateConfiguration\<close>: \<open>errors\<close> is a dictionary keyed by
  address (an association list in insertion order; assigning to a key that is present
  replaces its value in place), \<open>success\<close> is a list.
\<close>

record status =
  errors :: "(string \<times> string) list"
  success :: "string list"

definition set_error :: "string \<Rightarrow> string \<Rightarrow> status \<Rightarrow> status" where
  "set_error ip msg st = st\<lparr>errors := AList.update ip msg (errors st)\<rparr>"

definition add_success :: "string \<Rightarrow> status \<Rightarrow> status" where
  "add_success ip st = st\<lparr>success := success st @ [ip]\<rparr>"

text \<open>
  The body of the loop, one definition per step of the source, last step first. Each
  returns the status after this device (the loop goes on) or the exception that leaves
  \<open>updateConfiguration\<close>, with the new world and the calls made.
\<close>

text \<open>
  Lines 166-168, 179-181, 191-193 and 199-200: \<open>c.close()\<close> after the status has been
  updated. When it raises, the exception leaves the function and the status with it.
\<close>

definition close_session ::
  "'w transport \<Rightarrow> driver \<Rightarrow> status \<Rightarrow> 'w \<Rightarrow> (exn + status) \<times> 'w \<times> event list"
where
  "close_session tr c st w =
     (let (r, w') = t_close tr c w
      in (case r of Inl e \<Rightarrow> Inl e | Inr u \<Rightarrow> Inr st, w', [EvClose c r]))"

text \<open>Lines 185-200: step 4, the registration command, and the successful end.\<close>

definition register_license ::
  "settings \<Rightarrow> 'w transport \<Rightarrow> driver \<Rightarrow> status \<Rightarrow> string \<Rightarrow> 'w \<Rightarrow> (exn + status) \<times> 'w \<times> event list"
where
  "register_license cfg tr c st ip w =
     (let (r, w') = t_send_command tr c (LICENSE_REGISTER_COMMAND cfg) w;
          log = [EvSendCommand c (LICENSE_REGISTER_COMMAND cfg) r]
      in case r of
           Inl e \<Rightarrow> (Inl e, w', log)
         | Inr resp \<Rightarrow>
             if failed resp
             then (case close_session tr c (set_error ip (result resp) st) w' of
                     (res, w'', log') \<Rightarrow> (res, w'', log @ log'))
             else (case close_session tr c (add_success ip st) w' of
                     (res, w'', log') \<Rightarrow> (res, w'', log @ log')))"

text \<open>Lines 172-183: step 3, the new call-home profile.\<close>

definition apply_config ::
  "settings \<Rightarrow> 'w transport \<Rightarrow> driver \<Rightarrow> status \<Rightarrow> string \<Rightarrow> 'w \<Rightarrow> (exn + status) \<times> 'w \<times> event list"
where
  "apply_config cfg tr c st ip w =
     (let (r, w') = t_send_configs tr c (SSM_CONFIG cfg) w;
          log = [EvSendConfigs c (SSM_CONFIG cfg) r]
      in case r of
           Inl e \<Rightarrow> (Inl e, w', log)
         | Inr resp \<Rightarrow>
             if failed resp
             then (case close_session tr c (set_error ip (result resp) st) w' of
                     (res, w'', log') \<Rightarrow> (res, w'', log @ log'))
             else (case register_license cfg tr c st ip w' of
                     (res, w'', log') \<Rightarrow> (res, w'', log @ log')))"

text \<open>
  Lines 157-170: step 2, the removal of the default profile, when requested. The
  message that names the profile is printed before the commands are sent.
\<close>

definition remove_default ::
  "(string \<Rightarrow> bool) \<Rightarrow> settings \<Rightarrow> 'w transport \<Rightarrow> driver \<Rightarrow> status \<Rightarrow> string \<Rightarrow> 'w
     \<Rightarrow> (exn + status) \<times> 'w \<times> event list"
where
  "remove_default renders cfg tr c st ip w =
     (if REMOVE_DEFAULT_PROFILE cfg
      then (case console_print renders (removing_default cfg) of
              Inl e \<Rightarrow> (Inl e, w, [])
            | Inr u \<Rightarrow>
                (let (r, w') = t_send_configs tr c (REMOVE_SSM_CONFIG cfg) w;
                     log = [EvSendConfigs c (REMOVE_SSM_CONFIG cfg) r]
                 in case r of
                      Inl e \<Rightarrow> (Inl e, w', log)
                    | Inr resp \<Rightarrow>
                        if failed resp
                        then (case close_session tr c (set_error ip (result resp) st) w' of
                                (res, w'', log') \<Rightarrow> (res, w'', log @ log'))
                        else (case apply_config cfg tr c st ip w' of
                                (res, w'', log') \<Rightarrow> (res, w'', log @ log'))))
      else apply_config cfg tr c st ip w)"

text \<open>
  Lines 143-200: one iteration. The message that names the address is printed first.
  When \<open>connectSSH\<close> returns an error that is false in Python (the empty message), the
  test of line 149 fails, \<open>c\<close> is \<open>None\<close> and the first method call on it raises
  \<open>AttributeError\<close>.
\<close>

definition process_device ::
  "(string \<Rightarrow> bool) \<Rightarrow> settings \<Rightarrow> 'w transport \<Rightarrow> string \<Rightarrow> string \<Rightarrow> string option
     \<Rightarrow> status \<Rightarrow> string \<Rightarrow> 'w \<Rightarrow> (exn + status) \<times> 'w \<times> event list"
where
  "process_device renders cfg tr user password enable_password st ip w =
     (case console_print renders (working_on ip) of
        Inl e \<Rightarrow> (Inl e, w, [])
      | Inr u \<Rightarrow>
          (case connectSSH tr ip user password enable_password w of
             (Inl e, w', log) \<Rightarrow> (Inl e, w', log)
           | (Inr (c, err), w', log) \<Rightarrow>
               if truthy err then (Inr (set_error ip (the err) st), w', log)
               else (case c of
                       None \<Rightarrow> (Inl AttributeError, w', log)
                     | Some conn \<Rightarrow>
                         (case remove_default renders cfg tr conn st ip w' of
                            (res, w'', log') \<Rightarrow> (res, w'', log @ log')))))"

text \<open>Lines 142-200: the loop over the addresses; an exception ends it.\<close>

fun for_each_ip ::
  "(string \<Rightarrow> bool) \<Rightarrow> settings \<Rightarrow> 'w transport \<Rightarrow> string \<Rightarrow> string \<Rightarrow> string option
     \<Rightarrow> string list \<Rightarrow> status \<Rightarrow> 'w \<Rightarrow> (exn + status) \<times> 'w \<times> event list"
where
  "for_each_ip renders cfg tr user password enable_password [] st w = (Inr st, w, [])"
| "for_each_ip renders cfg tr user password enable_password (ip # iplist) st w =
     (case process_device renders cfg tr user password enable_password st ip w of
        (Inl e, w', log) \<Rightarrow> (Inl e, w', log)
      | (Inr st', w', log) \<Rightarrow>
          (case for_each_ip renders cfg tr user password enable_password iplist st' w' of
             (res, w'', log') \<Rightarrow> (res, w'', log @ log')))"

text \<open>Lines 132-201.\<close>

definition updateConfiguration ::
  "(string \<Rightarrow> bool) \<Rightarrow> settings \<Rightarrow> 'w transport \<Rightarrow> string list \<Rightarrow> string \<Rightarrow> string
     \<Rightarrow> string option \<Rightarrow> 'w \<Rightarrow> (exn + status) \<times> 'w \<times> event list"
where
  "updateConfiguration renders cfg tr iplist user password enable_password w =
     for_each_ip renders cfg tr user password enable_password iplist
       \<lparr>errors = [], success = []\<rparr> w"

text \<open>
  Lines 232-249 without the prompts and the report: the credentials typed by the
  operator are arguments, and the result is what \<open>printResults\<close> receives.
\<close>

definition run ::
  "(string \<Rightarrow> bool) \<Rightarrow> (string \<Rightarrow> bool) \<Rightarrow> settings \<Rightarrow> filesystem \<Rightarrow> 'w transport
     \<Rightarrow> string \<Rightarrow> string \<Rightarrow> string option \<Rightarrow> 'w
     \<Rightarrow> (exn + (status \<times> string list)) \<times> 'w \<times> event list"
where
  "run renders ip_address cfg fs tr user password enable_pw w =
     (case loadDeviceList ip_address cfg fs of
        Inl e \<Rightarrow> (Inl e, w, [])
      | Inr (iplist, bad_ips) \<Rightarrow>
          (case updateConfiguration renders cfg tr iplist user password enable_pw w of
             (Inl e, w', log) \<Rightarrow> (Inl e, w', log)
           | (Inr st, w', log) \<Rightarrow> (Inr (st, bad_ips), w', log)))"

section \<open>Observing a run\<close>

text \<open>
  A log is well bracketed when every session that \<open>open\<close> established is closed exactly
  once, by a \<open>close\<close> that returned, after its last stage and before the next \<open>open\<close>,
  and no other session is used or closed. The first argument is the session that is
  open at this point of the log.
\<close>

fun closed_once :: "driver option \<Rightarrow> event list \<Rightarrow> bool" where
  "closed_once cur [] = (cur = None)"
| "closed_once cur (EvOpen d r # evs) =
     (cur = None \<and> closed_once (case r of Inl e \<Rightarrow> None | Inr u \<Rightarrow> Some d) evs)"
| "closed_once cur (EvSendConfigs d cmds r # evs) = (cur = Some d \<and> closed_once cur evs)"
| "closed_once cur (EvSendCommand d cmd r # evs) = (cur = Some d \<and> closed_once cur evs)"
| "closed_once cur (EvClose d r # evs) =
     (cur = Some d \<and> (case r of Inl e \<Rightarrow> False | Inr u \<Rightarrow> closed_once None evs))"

text \<open>
  A stage call and a close call; a stage call that returned the failure signal, and
  its output; the exception of a stage call that raised.
\<close>

fun is_stage :: "event \<Rightarrow> bool" where
  "is_stage (EvSendConfigs d cmds r) = True"
| "is_stage (EvSendCommand d cmd r) = True"
| "is_stage ev = False"

fun is_close :: "event \<Rightarrow> bool" where
  "is_close (EvClose d r) = True"
| "is_close ev = False"

fun stage_failed :: "event \<Rightarrow> bool" where
  "stage_failed (EvSendConfigs d cmds (Inr resp)) = failed resp"
| "stage_failed (EvSendCommand d cmd (Inr resp)) = failed resp"
| "stage_failed ev = False"

fun stage_output :: "event \<Rightarrow> string" where
  "stage_output (EvSendConfigs d cmds (Inr resp)) = result resp"
| "stage_output (EvSendCommand d cmd (Inr resp)) = result resp"
| "stage_output ev = []"

fun stage_raised :: "event \<Rightarrow> exn option" where
  "stage_raised (EvSendConfigs d cmds (Inl e)) = Some e"
| "stage_raised (EvSendCommand d cmd (Inl e)) = Some e"
| "stage_raised ev = None"


text \<open>
  The reason a call gives for the failure of its device, if it gives one: the message
  of a handled exception of \<open>open\<close>, or the output of a stage that signalled failure.
  The reason of a log is that of its first call that has one.
\<close>

fun failure_reason :: "event \<Rightarrow> string option" where
  "failure_reason (EvOpen d (Inl (ScrapliAuthenticationFailed m))) = Some m"
| "failure_reason (EvOpen d (Inl (ScrapliPrivilegeError m))) = Some m"
| "failure_reason (EvSendConfigs d cmds (Inr resp)) =
     (if failed resp then Some (result resp) else None)"
| "failure_reason (EvSendCommand d cmd (Inr resp)) =
     (if failed resp then Some (result resp) else None)"
| "failure_reason ev = None"

fun first_failure :: "event list \<Rightarrow> string option" where
  "first_failure [] = None"
| "first_failure (ev # evs) =
     (case failure_reason ev of Some m \<Rightarrow> Some m | None \<Rightarrow> first_failure evs)"



text \<open>
  What follows an update of the status to \<open>st'\<close>: the close of the session, with \<open>st'\<close>
  as the result when it returns and its exception when it raises.
\<close>

definition closes_with :: "driver \<Rightarrow> status \<Rightarrow> event list \<Rightarrow> exn + status \<Rightarrow> bool" where
  "closes_with c st' log res =
     (\<exists>r. log = [EvClose c r] \<and> res = (case r of Inl e \<Rightarrow> Inl e | Inr u \<Rightarrow> Inr st'))"


text \<open>
  The addresses a status holds, and the property that it holds each of them once: no
  address twice in a bucket and none in both.
\<close>

definition recorded :: "status \<Rightarrow> string set" where
  "recorded st = set (success st) \<union> fst ` set (errors st)"

definition one_bucket_each :: "status \<Rightarrow> bool" where
  "one_bucket_each st =
     (distinct (success st) \<and> distinct (map fst (errors st))
      \<and> set (success st) \<inter> fst ` set (errors st) = {})"

section \<open>The stages as a sequence\<close>




section \<open>A simulated fleet\<close>

text \<open>
  A driver to evaluate the model with. The world is the number of \<open>open\<close> calls made so
  far; the behaviour of a device may depend on its address and on which session of the
  run this is.
\<close>

datatype behaviour =
    Healthy
  | OpenRaises exn
  | RejectsLine string string
  | RejectsAndDrops string string exn
  | ConfigsRaise exn
  | CommandFails string
  | CommandRaises exn

fun open_reply :: "behaviour \<Rightarrow> exn + unit" where
  "open_reply (OpenRaises e) = Inl e"
| "open_reply b = Inr ()"

fun configs_reply :: "behaviour \<Rightarrow> string list \<Rightarrow> exn + response" where
  "configs_reply (RejectsLine line out) cmds =
     Inr \<lparr>failed = (line \<in> set cmds), result = (if line \<in> set cmds then out else [])\<rparr>"
| "configs_reply (RejectsAndDrops line out e) cmds =
     Inr \<lparr>failed = (line \<in> set cmds), result = (if line \<in> set cmds then out else [])\<rparr>"
| "configs_reply (ConfigsRaise e) cmds = Inl e"
| "configs_reply b cmds = Inr \<lparr>failed = False, result = []\<rparr>"

fun command_reply :: "behaviour \<Rightarrow> exn + response" where
  "command_reply (CommandFails out) = Inr \<lparr>failed = True, result = out\<rparr>"
| "command_reply (CommandRaises e) = Inl e"
| "command_reply b = Inr \<lparr>failed = False, result = []\<rparr>"

fun close_reply :: "behaviour \<Rightarrow> exn + unit" where
  "close_reply (RejectsAndDrops line out e) = Inl e"
| "close_reply b = Inr ()"

definition simulated :: "(nat \<Rightarrow> string \<Rightarrow> behaviour) \<Rightarrow> nat transport" where
  "simulated fleet =
     \<lparr>t_open = (\<lambda>d n. (open_reply (fleet n (host d)), Suc n)),
      t_send_configs = (\<lambda>d cmds n. (configs_reply (fleet (n - 1) (host d)) cmds, n)),
      t_send_command = (\<lambda>d cmd n. (command_reply (fleet (n - 1) (host d)), n)),
      t_close = (\<lambda>d n. (close_reply (fleet (n - 1) (host d)), n))\<rparr>"

text \<open>
  Fleets: one with a device that fails registration, one that refuses the credentials,
  one that rejects a line of the new profile and one that rejects the removal of the
  default profile; one whose stages time out; one that rejects the removal and then
  drops the connection, so that closing raises; one that cannot be reached; one that
  refuses the credentials and one that refuses the enable secret, with the same
  message; and one that accepts the first session only.
\<close>

definition mixed_fleet :: "nat \<Rightarrow> string \<Rightarrow> behaviour" where
  "mixed_fleet n h =
     (if h = ''10.0.0.2'' then CommandFails ''registration failed''
      else if h = ''10.0.0.3'' then OpenRaises (ScrapliAuthenticationFailed ''denied'')
      else if h = ''10.0.0.4'' then RejectsLine ''active'' ''rejected''
      else if h = ''10.0.0.5'' then RejectsLine ''no profile CiscoTAC-1'' ''no such profile''
      else Healthy)"

definition stalling_fleet :: "nat \<Rightarrow> string \<Rightarrow> behaviour" where
  "stalling_fleet n h = ConfigsRaise (OtherScrapliError ''timed out'')"

definition dropping_fleet :: "nat \<Rightarrow> string \<Rightarrow> behaviour" where
  "dropping_fleet n h =
     RejectsAndDrops ''no profile CiscoTAC-1'' ''no such profile''
       (OtherScrapliError ''connection lost'')"


definition auth_denied_fleet :: "nat \<Rightarrow> string \<Rightarrow> behaviour" where
  "auth_denied_fleet n h = OpenRaises (ScrapliAuthenticationFailed ''denied'')"

definition priv_denied_fleet :: "nat \<Rightarrow> string \<Rightarrow> behaviour" where
  "priv_denied_fleet n h = OpenRaises (ScrapliPrivilegeError ''denied'')"

definition first_session_only_fleet :: "nat \<Rightarrow> string \<Rightarrow> behaviour" where
  "first_session_only_fleet n h =
     (if n = 0 then Healthy else OpenRaises (ScrapliAuthenticationFailed ''denied''))"

section \<open>Properties of the device list loader\<close>

lemma classify_lines_filter:
  "classify_lines P lns v i =
     (v @ filter P (nonblank_lines lns), i @ filter (\<lambda>l. \<not> P l) (nonblank_lines lns))"
  by (induction lns arbitrary: v i) (simp_all add: nonblank_lines_def Let_def)

lemma count_list_filter_split:
  "count_list (filter P xs) x + count_list (filter (\<lambda>l. \<not> P l) xs) x = count_list xs x"
  by (induction xs) auto

text \<open>
  C6: for every sequence of raw lines the loader returns the lines that parse as
  addresses and the lines that do not, both trimmed and in the order of the file; the
  two lists share no entry, blank lines are in neither, and every other line is in
  exactly one of them as often as it occurs (no deduplication).
\<close>

theorem loadDeviceList_partitions:
  "\<exists>valid_ips invalid_ips.
     loadDeviceList ip_address cfg (fs(DEVICE_LIST cfg \<mapsto> file)) = Inr (valid_ips, invalid_ips)
     \<and> valid_ips = filter ip_address (nonblank_lines file)
     \<and> invalid_ips = filter (\<lambda>l. \<not> ip_address l) (nonblank_lines file)
     \<and> set valid_ips \<inter> set invalid_ips = {}
     \<and> length valid_ips + length invalid_ips = length (nonblank_lines file)
     \<and> (\<forall>l. count_list valid_ips l + count_list invalid_ips l = count_list (nonblank_lines file) l)"
proof -
  have len: "length (filter ip_address (nonblank_lines file))
        + length (filter (\<lambda>l. \<not> ip_address l) (nonblank_lines file)) = length (nonblank_lines file)"
    using sum_length_filter_compl [of ip_address "nonblank_lines file"] by simp
  show ?thesis
    by (auto simp: loadDeviceList_def classify_lines_filter len count_list_filter_split)
qed


lemma strip_all_space:
  assumes "list_all is_space ws"
  shows "strip ws = []"
proof -
  have h: "dropWhile is_space ws = []"
    using assms by (simp add: list_all_iff)
  show ?thesis
    unfolding strip_def h by simp
qed

lemma dropWhile_space_prefix:
  "list_all is_space l \<Longrightarrow> a \<noteq> [] \<Longrightarrow> \<not> is_space (hd a) \<Longrightarrow> dropWhile is_space (l @ a @ r) = a @ r"
  by (induction l) (auto simp: neq_Nil_conv)

lemma strip_surrounded:
  assumes "list_all is_space l" "list_all is_space r" "a \<noteq> []"
    "\<not> is_space (hd a)" "\<not> is_space (last a)"
  shows "strip (l @ a @ r) = a"
proof -
  have front: "dropWhile is_space (l @ a @ r) = a @ r"
    using assms by (simp add: dropWhile_space_prefix)
  have "dropWhile is_space (rev r @ rev a @ []) = rev a @ []"
    using assms by (intro dropWhile_space_prefix) (simp_all add: list_all_iff hd_rev)
  then show ?thesis
    by (simp add: strip_def front)
qed

lemma nonblank_lines_Cons:
  "nonblank_lines (x # xs) = (if strip x = [] then [] else [strip x]) @ nonblank_lines xs"
  by (simp add: nonblank_lines_def)

lemma nonblank_lines_append: "nonblank_lines (xs @ ys) = nonblank_lines xs @ nonblank_lines ys"
  by (simp add: nonblank_lines_def)

text \<open>
  C9: every line is trimmed before it is classified. A line of whitespace only is
  skipped like the empty line (the result is that of the file without it), and a valid
  address between whitespace is accepted and stored trimmed.
\<close>

theorem loadDeviceList_trims:
  assumes "list_all is_space ws" "list_all is_space l" "list_all is_space r"
    and "a \<noteq> []" "\<not> is_space (hd a)" "\<not> is_space (last a)" "ip_address a"
  shows "loadDeviceList ip_address cfg (fs(DEVICE_LIST cfg \<mapsto> pre @ [ws] @ post))
           = loadDeviceList ip_address cfg (fs(DEVICE_LIST cfg \<mapsto> pre @ [[]] @ post))
       \<and> loadDeviceList ip_address cfg (fs(DEVICE_LIST cfg \<mapsto> pre @ [ws] @ post))
           = loadDeviceList ip_address cfg (fs(DEVICE_LIST cfg \<mapsto> pre @ post))
       \<and> strip (l @ a @ r) = a
       \<and> loadDeviceList ip_address cfg (fs(DEVICE_LIST cfg \<mapsto> pre @ [l @ a @ r] @ post))
           = Inr (filter ip_address (nonblank_lines pre) @ [a] @ filter ip_address (nonblank_lines post),
                  filter (\<lambda>l. \<not> ip_address l) (nonblank_lines (pre @ post)))"
proof -
  have blank: "strip ws = []" "strip [] = []"
    using strip_all_space [OF assms(1)] strip_all_space [of "[]"] by simp_all
  have trimmed: "strip (l @ a @ r) = a"
    using assms by (simp add: strip_surrounded)
  show ?thesis
    using assms(4) assms(7)
    by (simp add: loadDeviceList_def classify_lines_filter nonblank_lines_append
        nonblank_lines_Cons blank trimmed)
qed

theorem loadDeviceList_trims_witness:
  "loadDeviceList dotted_quad shipped_settings
     (Map.empty(DEVICE_LIST shipped_settings \<mapsto> [''bad-addr''] @ ['' \<newline>''] @ [''10.0.0.2'']))
     = loadDeviceList dotted_quad shipped_settings
         (Map.empty(DEVICE_LIST shipped_settings \<mapsto> [''bad-addr''] @ [''10.0.0.2'']))
   \<and> strip (''  '' @ ''10.0.0.1'' @ '' \<newline>'') = ''10.0.0.1''
   \<and> loadDeviceList dotted_quad shipped_settings
       (Map.empty(DEVICE_LIST shipped_settings \<mapsto>
          [''bad-addr''] @ [''  '' @ ''10.0.0.1'' @ '' \<newline>''] @ [''10.0.0.2'']))
     = Inr ([''10.0.0.1'', ''10.0.0.2''], [''bad-addr''])"
proof -
  have sp: "list_all is_space '' \<newline>''" "list_all is_space ''  ''"
    by (simp_all add: is_space_def)
  have a: "''10.0.0.1'' \<noteq> []" "\<not> is_space (hd ''10.0.0.1'')" "\<not> is_space (last ''10.0.0.1'')"
    by (simp_all add: is_space_def)
  have v: "dotted_quad ''10.0.0.1''" "dotted_quad ''10.0.0.2''" "\<not> dotted_quad ''bad-addr''"
    by (simp_all add: dotted_quad_def octet_def is_digit_def decimal_def)
  have nb: "nonblank_lines [''bad-addr''] = [''bad-addr'']"
    "nonblank_lines [''10.0.0.2''] = [''10.0.0.2'']"
    "nonblank_lines [''bad-addr'', ''10.0.0.2''] = [''bad-addr'', ''10.0.0.2'']"
    by (simp_all add: nonblank_lines_def strip_def is_space_def)
  note t = loadDeviceList_trims [where ws = "'' \<newline>''" and l = "''  ''" and r = "'' \<newline>''"
      and a = "''10.0.0.1''" and ip_address = dotted_quad and cfg = shipped_settings
      and fs = Map.empty and pre = "[''bad-addr'']" and post = "[''10.0.0.2'']",
      OF sp(1) sp(2) sp(1) a v(1)]
  show ?thesis
  proof (intro conjI)
    show "loadDeviceList dotted_quad shipped_settings
       (Map.empty(DEVICE_LIST shipped_settings \<mapsto> [''bad-addr''] @ ['' \<newline>''] @ [''10.0.0.2'']))
       = loadDeviceList dotted_quad shipped_settings
           (Map.empty(DEVICE_LIST shipped_settings \<mapsto> [''bad-addr''] @ [''10.0.0.2'']))"
      by (rule t [THEN conjunct2, THEN conjunct1])
    show "strip (''  '' @ ''10.0.0.1'' @ '' \<newline>'') = ''10.0.0.1''"
      by (rule t [THEN conjunct2, THEN conjunct2, THEN conjunct1])
    show "loadDeviceList dotted_quad shipped_settings
       (Map.empty(DEVICE_LIST shipped_settings \<mapsto>
          [''bad-addr''] @ [''  '' @ ''10.0.0.1'' @ '' \<newline>''] @ [''10.0.0.2'']))
       = Inr ([''10.0.0.1'', ''10.0.0.2''], [''bad-addr''])"
      using t [THEN conjunct2, THEN conjunct2, THEN conjunct2] v
      by (simp add: nonblank_lines_append nb)
  qed
qed

theorem loadDeviceList_partitions_witness:
  "loadDeviceList dotted_quad shipped_settings
     (Map.empty(DEVICE_LIST shipped_settings \<mapsto>
        [''10.0.0.1\<newline>'', ''\<newline>'', ''bad-addr\<newline>'', ''10.0.0.2\<newline>'', ''10.0.0.1'']))
     = Inr ([''10.0.0.1'', ''10.0.0.2'', ''10.0.0.1''], [''bad-addr''])"
proof -
  have nb: "nonblank_lines [''10.0.0.1\<newline>'', ''\<newline>'', ''bad-addr\<newline>'', ''10.0.0.2\<newline>'', ''10.0.0.1'']
      = [''10.0.0.1'', ''bad-addr'', ''10.0.0.2'', ''10.0.0.1'']"
    by (simp add: nonblank_lines_def strip_def is_space_def)
  have v: "dotted_quad ''10.0.0.1''" "dotted_quad ''10.0.0.2''" "\<not> dotted_quad ''bad-addr''"
    by (simp_all add: dotted_quad_def octet_def is_digit_def decimal_def)
  show ?thesis
    using loadDeviceList_partitions [of dotted_quad shipped_settings Map.empty
        "[''10.0.0.1\<newline>'', ''\<newline>'', ''bad-addr\<newline>'', ''10.0.0.2\<newline>'', ''10.0.0.1'']"] v
    unfolding nb by simp
qed

section \<open>Properties of the session gateway\<close>

lemma connectSSH_cases:
  "connectSSH tr ip user password en w =
     (let d = device_params ip user password en; r = fst (t_open tr d w); w' = snd (t_open tr d w)
      in (case r of
            Inr u \<Rightarrow> Inr (Some d, None)
          | Inl (ScrapliAuthenticationFailed m) \<Rightarrow> Inr (None, Some m)
          | Inl (ScrapliPrivilegeError m) \<Rightarrow> Inr (None, Some m)
          | Inl e \<Rightarrow> Inl e,
          w', [EvOpen d r]))"
  by (simp add: connectSSH_def Let_def split: prod.splits sum.splits exn.splits)

lemma empty_secret_params:
  "device_params device user password (Some []) = device_params device user password None"
  by (simp add: device_params_def truthy_def)

lemma empty_secret_connect:
  "connectSSH tr device user password (Some []) w = connectSSH tr device user password None w"
  by (simp add: connectSSH_def empty_secret_params)

lemma empty_secret_loop:
  "for_each_ip renders cfg tr user password (Some []) iplist st w
     = for_each_ip renders cfg tr user password None iplist st w"
proof (induction iplist arbitrary: st w)
  case Nil
  show ?case by simp
next
  case (Cons ip iplist)
  have "process_device renders cfg tr user password (Some []) st ip w
      = process_device renders cfg tr user password None st ip w" for st w
    unfolding process_device_def empty_secret_connect by (rule refl)
  with Cons show ?case
    by (simp split: prod.splits sum.splits)
qed

text \<open>
  C10, amended: an enable secret equal to the empty string is treated as an omitted
  one. The connection parameters are the same and hold no secondary secret, so the
  driver is called with the same arguments, and \<open>connectSSH\<close> and the whole run behave
  the same, also when the driver raises a privilege error while opening.
\<close>

theorem empty_secret_as_omitted:
  "device_params device user password (Some []) = device_params device user password None
   \<and> auth_secondary (device_params device user password (Some [])) = None
   \<and> connectSSH tr device user password (Some []) w = connectSSH tr device user password None w
   \<and> updateConfiguration renders cfg tr iplist user password (Some []) w
       = updateConfiguration renders cfg tr iplist user password None w
   \<and> (fst (t_open tr (device_params device user password None) w) = Inl (ScrapliPrivilegeError m)
        \<longrightarrow> connectSSH tr device user password (Some []) w
              = (Inr (None, Some m), snd (t_open tr (device_params device user password None) w),
                 [EvOpen (device_params device user password None)
                    (Inl (ScrapliPrivilegeError m))]))"
proof (intro conjI impI)
  show "device_params device user password (Some []) = device_params device user password None"
    by (rule empty_secret_params)
  show "auth_secondary (device_params device user password (Some [])) = None"
    by (simp add: device_params_def truthy_def)
  show "connectSSH tr device user password (Some []) w = connectSSH tr device user password None w"
    by (rule empty_secret_connect)
  show "updateConfiguration renders cfg tr iplist user password (Some []) w
       = updateConfiguration renders cfg tr iplist user password None w"
    by (simp add: updateConfiguration_def empty_secret_loop)
next
  assume "fst (t_open tr (device_params device user password None) w)
      = Inl (ScrapliPrivilegeError m)"
  then show "connectSSH tr device user password (Some []) w
              = (Inr (None, Some m), snd (t_open tr (device_params device user password None) w),
                 [EvOpen (device_params device user password None)
                    (Inl (ScrapliPrivilegeError m))])"
    by (simp add: connectSSH_cases empty_secret_params Let_def)
qed

theorem empty_secret_as_omitted_witness:
  "auth_secondary (device_params ''10.0.0.1'' ''admin'' ''pw'' (Some [])) = None
   \<and> updateConfiguration plain_markup shipped_settings (simulated mixed_fleet)
         [''10.0.0.1'', ''10.0.0.2''] ''admin'' ''pw'' (Some []) 0
       = updateConfiguration plain_markup shipped_settings (simulated mixed_fleet)
         [''10.0.0.1'', ''10.0.0.2''] ''admin'' ''pw'' None 0
   \<and> connectSSH (simulated priv_denied_fleet) ''10.0.0.1'' ''admin'' ''pw'' (Some []) 0
       = (Inr (None, Some ''denied''), 1,
          [EvOpen (device_params ''10.0.0.1'' ''admin'' ''pw'' None)
             (Inl (ScrapliPrivilegeError ''denied''))])"
proof -
  have refused: "fst (t_open (simulated priv_denied_fleet)
       (device_params ''10.0.0.1'' ''admin'' ''pw'' None) 0) = Inl (ScrapliPrivilegeError ''denied'')"
    by (simp add: simulated_def priv_denied_fleet_def)
  have after: "snd (t_open (simulated priv_denied_fleet)
       (device_params ''10.0.0.1'' ''admin'' ''pw'' None) 0) = 1"
    by (simp add: simulated_def)
  note t = empty_secret_as_omitted [of "''10.0.0.1''" "''admin''" "''pw''" "simulated mixed_fleet" 0
      plain_markup shipped_settings "[''10.0.0.1'', ''10.0.0.2'']"]
  note u = empty_secret_as_omitted [of "''10.0.0.1''" "''admin''" "''pw''"
      "simulated priv_denied_fleet" 0 plain_markup shipped_settings "[]" "''denied''"]
  show ?thesis
    using t [THEN conjunct2, THEN conjunct1]
      t [THEN conjunct2, THEN conjunct2, THEN conjunct2, THEN conjunct1]
      u [THEN conjunct2, THEN conjunct2, THEN conjunct2, THEN conjunct2, rule_format, OF refused]
    by (simp add: after)
qed

text \<open>
  C10 as stated fails: with the empty secret the driver is free to raise the
  exception of a failed privilege escalation while opening, and the script handles it
  as for any other secret.
\<close>

theorem privilege_error_without_secret:
  "auth_secondary (device_params ''10.0.0.1'' ''admin'' ''pw'' (Some [])) = None
   \<and> connectSSH (simulated priv_denied_fleet) ''10.0.0.1'' ''admin'' ''pw'' (Some []) 0
       = (Inr (None, Some ''denied''), 1,
          [EvOpen (device_params ''10.0.0.1'' ''admin'' ''pw'' (Some []))
             (Inl (ScrapliPrivilegeError ''denied''))])"
  by code_simp









text \<open>
  C5, amended: when \<open>open\<close> fails, it is the only call made for that device (no stage,
  no second attempt, no close). An authentication failure and a privilege failure are
  both returned by \<open>connectSSH\<close> as the message of the exception, and a message that
  is not empty becomes the entry of that address in the error dictionary, the success
  list unchanged; the kind of the failure is not part of what is returned.
\<close>

theorem open_failure_ends_device:
  assumes "renders (working_on ip)"
    and "fst (t_open tr (device_params ip user password enable_password) w) = Inl e"
  shows "snd (snd (process_device renders cfg tr user password enable_password st ip w))
           = [EvOpen (device_params ip user password enable_password) (Inl e)]
       \<and> (\<forall>m. e = ScrapliAuthenticationFailed m \<or> e = ScrapliPrivilegeError m \<longrightarrow>
              fst (connectSSH tr ip user password enable_password w) = Inr (None, Some m))
       \<and> (\<forall>m. (e = ScrapliAuthenticationFailed m \<or> e = ScrapliPrivilegeError m) \<and> m \<noteq> [] \<longrightarrow>
              (\<exists>st'. fst (process_device renders cfg tr user password enable_password st ip w)
                        = Inr st'
                    \<and> errors st' = AList.update ip m (errors st)
                    \<and> map_of (errors st') ip = Some m
                    \<and> success st' = success st))"
  using assms
  by (auto simp: process_device_def console_print_def connectSSH_cases Let_def truthy_def
      set_error_def update_conv' split: exn.splits)

theorem open_failure_ends_device_witness:
  "snd (snd (process_device plain_markup shipped_settings (simulated priv_denied_fleet)
        ''admin'' ''pw'' None \<lparr>errors = [], success = [''10.0.0.9'']\<rparr> ''10.0.0.1'' 0))
     = [EvOpen (device_params ''10.0.0.1'' ''admin'' ''pw'' None) (Inl (ScrapliPrivilegeError ''denied''))]
   \<and> fst (process_device plain_markup shipped_settings (simulated priv_denied_fleet)
        ''admin'' ''pw'' None \<lparr>errors = [], success = [''10.0.0.9'']\<rparr> ''10.0.0.1'' 0)
     = Inr \<lparr>errors = [(''10.0.0.1'', ''denied'')], success = [''10.0.0.9'']\<rparr>"
proof -
  have shown: "plain_markup (working_on ''10.0.0.1'')"
    by (simp add: plain_markup_def working_on_def)
  have refused: "fst (t_open (simulated priv_denied_fleet)
       (device_params ''10.0.0.1'' ''admin'' ''pw'' None) 0) = Inl (ScrapliPrivilegeError ''denied'')"
    by (simp add: simulated_def priv_denied_fleet_def)
  note t = open_failure_ends_device [where renders = plain_markup and cfg = shipped_settings
      and st = "\<lparr>errors = [], success = [''10.0.0.9'']\<rparr>", OF shown refused]
  from t [THEN conjunct2, THEN conjunct2, rule_format, of "''denied''"]
  obtain st' where
    "fst (process_device plain_markup shipped_settings (simulated priv_denied_fleet)
        ''admin'' ''pw'' None \<lparr>errors = [], success = [''10.0.0.9'']\<rparr> ''10.0.0.1'' 0) = Inr st'"
    "errors st' = [(''10.0.0.1'', ''denied'')]" "success st' = [''10.0.0.9'']"
    by auto
  then have "fst (process_device plain_markup shipped_settings (simulated priv_denied_fleet)
        ''admin'' ''pw'' None \<lparr>errors = [], success = [''10.0.0.9'']\<rparr> ''10.0.0.1'' 0)
     = Inr \<lparr>errors = [(''10.0.0.1'', ''denied'')], success = [''10.0.0.9'']\<rparr>"
    by simp
  with t [THEN conjunct1] show ?thesis
    by simp
qed

text \<open>
  C5 as stated fails: a refused password and a refused enable secret that carry the
  same message give the caller of \<open>connectSSH\<close> the same result, and the same report.
\<close>

theorem failure_kind_not_surfaced:
  "fst (t_open (simulated auth_denied_fleet) (device_params ''10.0.0.1'' ''admin'' ''pw'' None) 0)
     = Inl (ScrapliAuthenticationFailed ''denied'')
   \<and> fst (t_open (simulated priv_denied_fleet) (device_params ''10.0.0.1'' ''admin'' ''pw'' None) 0)
     = Inl (ScrapliPrivilegeError ''denied'')
   \<and> fst (connectSSH (simulated auth_denied_fleet) ''10.0.0.1'' ''admin'' ''pw'' None 0)
     = fst (connectSSH (simulated priv_denied_fleet) ''10.0.0.1'' ''admin'' ''pw'' None 0)
   \<and> fst (updateConfiguration plain_markup shipped_settings (simulated auth_denied_fleet)
            [''10.0.0.1''] ''admin'' ''pw'' None 0)
     = fst (updateConfiguration plain_markup shipped_settings (simulated priv_denied_fleet)
            [''10.0.0.1''] ''admin'' ''pw'' None 0)"
  by code_simp

section \<open>Properties of the stages\<close>

lemma append_Cons_single: "ys @ x # zs = [y] \<longleftrightarrow> ys = [] \<and> x = y \<and> zs = []"
  by (cases ys) auto

lemma close_session_closes:
  "close_session tr c st w = (res, w', log) \<Longrightarrow> closes_with c st log res"
  by (auto simp: close_session_def closes_with_def Let_def split: prod.splits)

lemma register_license_failed:
  assumes "register_license cfg tr c st ip w = (res, w', pre @ ev # post)" "stage_failed ev"
  shows "closes_with c (set_error ip (stage_output ev) st) post res"
  using assms
  by (auto simp: register_license_def Let_def Cons_eq_append_conv append_eq_Cons_conv
      split: prod.splits sum.splits if_splits dest!: close_session_closes)
    (auto simp: closes_with_def append_Cons_single)

lemma apply_config_failed:
  assumes "apply_config cfg tr c st ip w = (res, w', pre @ ev # post)" "stage_failed ev"
  shows "closes_with c (set_error ip (stage_output ev) st) post res"
  using assms
  by (auto simp: apply_config_def Let_def Cons_eq_append_conv append_eq_Cons_conv
      split: prod.splits sum.splits if_splits
      dest!: close_session_closes dest: register_license_failed)
    (auto simp: closes_with_def append_Cons_single)

lemma remove_default_failed:
  assumes "remove_default renders cfg tr c st ip w = (res, w', pre @ ev # post)" "stage_failed ev"
  shows "closes_with c (set_error ip (stage_output ev) st) post res"
  using assms
  by (auto simp: remove_default_def console_print_def Let_def Cons_eq_append_conv
      append_eq_Cons_conv
      split: prod.splits sum.splits if_splits
      dest!: close_session_closes dest: apply_config_failed)
    (auto simp: closes_with_def append_Cons_single)

lemma process_device_failed:
  assumes "process_device renders cfg tr user password en st ip w = (res, w', pre @ ev # post)"
    "stage_failed ev"
  shows "closes_with (device_params ip user password en) (set_error ip (stage_output ev) st)
           post res"
  using assms
  by (auto simp: process_device_def console_print_def connectSSH_cases Let_def
      Cons_eq_append_conv
      split: prod.splits sum.splits if_splits option.splits exn.splits
      dest: remove_default_failed)

text \<open>
  C4, amended: when a stage of a device returns the failure signal, the only call that
  follows for that device is the close of its session (no later stage is attempted).
  When the close returns, the output of that stage is the entry of the address in the
  error dictionary, the success list is unchanged and the loop goes on with the next
  address; when the close raises, its exception leaves the loop.
\<close>

theorem failed_stage_halts_device:
  assumes "process_device renders cfg tr user password enable_password st ip w = (res, w', log)"
    and "log = pre @ ev # post"
    and "stage_failed ev"
  shows "(\<exists>r. post = [EvClose (device_params ip user password enable_password) r])
       \<and> filter is_stage post = []
       \<and> (post = [EvClose (device_params ip user password enable_password) (Inr ())] \<longrightarrow>
            res = Inr (st\<lparr>errors := AList.update ip (stage_output ev) (errors st)\<rparr>)
            \<and> map_of (AList.update ip (stage_output ev) (errors st)) ip = Some (stage_output ev)
            \<and> for_each_ip renders cfg tr user password enable_password (ip # iplist) st w
                = (case for_each_ip renders cfg tr user password enable_password iplist
                          (st\<lparr>errors := AList.update ip (stage_output ev) (errors st)\<rparr>) w' of
                     (r', w'', log') \<Rightarrow> (r', w'', log @ log')))
       \<and> (\<forall>e. post = [EvClose (device_params ip user password enable_password) (Inl e)] \<longrightarrow>
            res = Inl e
            \<and> for_each_ip renders cfg tr user password enable_password (ip # iplist) st w
                = (Inl e, w', log))"
proof -
  from process_device_failed [OF assms(1) [unfolded assms(2)] assms(3)] obtain r where
    post: "post = [EvClose (device_params ip user password enable_password) r]" and
    res: "res = (case r of Inl e \<Rightarrow> Inl e | Inr u \<Rightarrow> Inr (set_error ip (stage_output ev) st))"
    unfolding closes_with_def by blast
  show ?thesis
  proof (cases r)
    case (Inl e)
    with post res assms(1) show ?thesis
      by simp
  next
    case (Inr u)
    with post res assms(1) show ?thesis
      by (simp add: set_error_def update_conv')
  qed
qed

theorem failed_stage_halts_device_witness:
  "process_device plain_markup shipped_settings (simulated mixed_fleet) ''admin'' ''pw'' None
        \<lparr>errors = [], success = [''10.0.0.1'']\<rparr> ''10.0.0.5'' 1
     = (Inr \<lparr>errors = [(''10.0.0.5'', ''no such profile'')], success = [''10.0.0.1'']\<rparr>, 2,
        [EvOpen (device_params ''10.0.0.5'' ''admin'' ''pw'' None) (Inr ())]
        @ EvSendConfigs (device_params ''10.0.0.5'' ''admin'' ''pw'' None)
            (REMOVE_SSM_CONFIG shipped_settings)
            (Inr \<lparr>failed = True, result = ''no such profile''\<rparr>)
        # [EvClose (device_params ''10.0.0.5'' ''admin'' ''pw'' None) (Inr ())])
   \<and> for_each_ip plain_markup shipped_settings (simulated mixed_fleet) ''admin'' ''pw'' None
        (''10.0.0.5'' # [''10.0.0.2'']) \<lparr>errors = [], success = [''10.0.0.1'']\<rparr> 1
     = (case for_each_ip plain_markup shipped_settings (simulated mixed_fleet) ''admin'' ''pw''
               None [''10.0.0.2'']
               \<lparr>errors = [(''10.0.0.5'', ''no such profile'')], success = [''10.0.0.1'']\<rparr> 2 of
          (r', w'', log') \<Rightarrow>
            (r', w'',
             ([EvOpen (device_params ''10.0.0.5'' ''admin'' ''pw'' None) (Inr ())]
              @ EvSendConfigs (device_params ''10.0.0.5'' ''admin'' ''pw'' None)
                  (REMOVE_SSM_CONFIG shipped_settings)
                  (Inr \<lparr>failed = True, result = ''no such profile''\<rparr>)
              # [EvClose (device_params ''10.0.0.5'' ''admin'' ''pw'' None) (Inr ())]) @ log'))"
proof -
  have run: "process_device plain_markup shipped_settings (simulated mixed_fleet) ''admin'' ''pw''
        None \<lparr>errors = [], success = [''10.0.0.1'']\<rparr> ''10.0.0.5'' 1
     = (Inr \<lparr>errors = [(''10.0.0.5'', ''no such profile'')], success = [''10.0.0.1'']\<rparr>, 2,
        [EvOpen (device_params ''10.0.0.5'' ''admin'' ''pw'' None) (Inr ())]
        @ EvSendConfigs (device_params ''10.0.0.5'' ''admin'' ''pw'' None)
            (REMOVE_SSM_CONFIG shipped_settings)
            (Inr \<lparr>failed = True, result = ''no such profile''\<rparr>)
        # [EvClose (device_params ''10.0.0.5'' ''admin'' ''pw'' None) (Inr ())])"
    by code_simp
  have sig: "stage_failed (EvSendConfigs (device_params ''10.0.0.5'' ''admin'' ''pw'' None)
            (REMOVE_SSM_CONFIG shipped_settings)
            (Inr \<lparr>failed = True, result = ''no such profile''\<rparr>))"
    by simp
  have entry: "\<lparr>errors = [], success = [''10.0.0.1'']\<rparr>
        \<lparr>errors := AList.update ''10.0.0.5''
           (stage_output (EvSendConfigs (device_params ''10.0.0.5'' ''admin'' ''pw'' None)
              (REMOVE_SSM_CONFIG shipped_settings)
              (Inr \<lparr>failed = True, result = ''no such profile''\<rparr>)))
           (errors \<lparr>errors = [], success = [''10.0.0.1'']\<rparr>)\<rparr>
      = \<lparr>errors = [(''10.0.0.5'', ''no such profile'')], success = [''10.0.0.1'']\<rparr>"
    by simp
  note t = failed_stage_halts_device [OF run refl sig, of "[''10.0.0.2'']",
      THEN conjunct2, THEN conjunct2, THEN conjunct1, rule_format, OF refl,
      THEN conjunct2, THEN conjunct2, unfolded entry]
  show ?thesis
    using run t by (rule conjI)
qed

text \<open>
  C4 as stated fails: after a stage that signalled failure the session is closed, and
  when that close raises, the exception leaves \<open>updateConfiguration\<close>: the next address
  is not processed.
\<close>

theorem close_exception_stops_loop:
  "updateConfiguration plain_markup shipped_settings (simulated dropping_fleet)
      [''10.0.0.1'', ''10.0.0.2''] ''admin'' ''pw'' None 0
     = (Inl (OtherScrapliError ''connection lost''), 1,
        [EvOpen (device_params ''10.0.0.1'' ''admin'' ''pw'' None) (Inr ()),
         EvSendConfigs (device_params ''10.0.0.1'' ''admin'' ''pw'' None)
           (REMOVE_SSM_CONFIG shipped_settings)
           (Inr \<lparr>failed = True, result = ''no such profile''\<rparr>),
         EvClose (device_params ''10.0.0.1'' ''admin'' ''pw'' None)
           (Inl (OtherScrapliError ''connection lost''))])"
  by code_simp












lemma single_append_Cons: "[y] = ys @ x # zs \<longleftrightarrow> ys = [] \<and> x = y \<and> zs = []"
  by (cases ys) auto

section \<open>Properties of the session lifetime\<close>

lemma closed_once_append:
  "closed_once cur log \<Longrightarrow> closed_once None log' \<Longrightarrow> closed_once cur (log @ log')"
  by (induction cur log rule: closed_once.induct) (auto split: sum.splits)

lemma close_session_closed:
  "close_session tr c st w = (Inr st', w', log) \<Longrightarrow> closed_once (Some c) log"
  by (auto simp: close_session_def Let_def split: prod.splits sum.splits)

lemma register_license_closed:
  "register_license cfg tr c st ip w = (Inr st', w', log) \<Longrightarrow> closed_once (Some c) log"
  by (auto simp: register_license_def Let_def split: prod.splits sum.splits if_splits
      dest: close_session_closed)

lemma apply_config_closed:
  "apply_config cfg tr c st ip w = (Inr st', w', log) \<Longrightarrow> closed_once (Some c) log"
  by (auto simp: apply_config_def Let_def split: prod.splits sum.splits if_splits
      dest: register_license_closed close_session_closed)

lemma remove_default_closed:
  "remove_default renders cfg tr c st ip w = (Inr st', w', log) \<Longrightarrow> closed_once (Some c) log"
  by (auto simp: remove_default_def console_print_def Let_def
      split: prod.splits sum.splits if_splits
      dest: apply_config_closed close_session_closed)

lemma process_device_closed:
  "process_device renders cfg tr user password en st ip w = (Inr st', w', log) \<Longrightarrow>
     closed_once None log"
  by (auto simp: process_device_def console_print_def connectSSH_cases Let_def truthy_def
      split: prod.splits sum.splits if_splits option.splits exn.splits
      dest: remove_default_closed)

lemma for_each_ip_closed:
  "for_each_ip renders cfg tr user password en iplist st w = (Inr st', w', log) \<Longrightarrow>
     closed_once None log"
proof (induction iplist arbitrary: st w log)
  case Nil
  then show ?case by simp
next
  case (Cons ip iplist)
  then show ?case
    by (auto split: prod.splits sum.splits
        intro!: closed_once_append dest: process_device_closed)
qed

lemma for_each_ip_append:
  "for_each_ip renders cfg tr user password en (xs @ ys) st w
     = (case for_each_ip renders cfg tr user password en xs st w of
          (Inl e, w', log) \<Rightarrow> (Inl e, w', log)
        | (Inr st', w', log) \<Rightarrow>
            (case for_each_ip renders cfg tr user password en ys st' w' of
               (res, w'', log') \<Rightarrow> (res, w'', log @ log')))"
  by (induction xs arbitrary: st w) (auto split: prod.splits sum.splits)

text \<open>A stage that raises is the last call of its iteration, and nothing was closed.\<close>

lemma close_session_raised:
  "close_session tr c st w = (res, w', pre @ ev # post) \<Longrightarrow> stage_raised ev = Some e \<Longrightarrow> False"
  by (auto simp: close_session_def Let_def single_append_Cons split: prod.splits)

lemma register_license_raised:
  assumes "register_license cfg tr c st ip w = (res, w', pre @ ev # post)"
    "stage_raised ev = Some e"
  shows "post = [] \<and> res = Inl e \<and> \<not> list_ex is_close pre"
  using assms
  by (auto simp: register_license_def Let_def Cons_eq_append_conv append_Cons_single
      split: prod.splits sum.splits if_splits dest: close_session_raised)

lemma apply_config_raised:
  assumes "apply_config cfg tr c st ip w = (res, w', pre @ ev # post)"
    "stage_raised ev = Some e"
  shows "post = [] \<and> res = Inl e \<and> \<not> list_ex is_close pre"
  using assms
  by (auto simp: apply_config_def Let_def Cons_eq_append_conv append_Cons_single
      split: prod.splits sum.splits if_splits
      dest: close_session_raised register_license_raised)

lemma remove_default_raised:
  assumes "remove_default renders cfg tr c st ip w = (res, w', pre @ ev # post)"
    "stage_raised ev = Some e"
  shows "post = [] \<and> res = Inl e \<and> \<not> list_ex is_close pre"
  using assms
  by (auto simp: remove_default_def console_print_def Let_def Cons_eq_append_conv
      append_Cons_single
      split: prod.splits sum.splits if_splits
      dest: close_session_raised apply_config_raised)

lemma process_device_raised:
  assumes "process_device renders cfg tr user password en st ip w = (res, w', pre @ ev # post)"
    "stage_raised ev = Some e"
  shows "post = [] \<and> res = Inl e \<and> \<not> list_ex is_close pre"
  using assms
  by (auto simp: process_device_def console_print_def connectSSH_cases Let_def
      Cons_eq_append_conv append_Cons_single
      split: prod.splits sum.splits if_splits option.splits exn.splits
      dest: remove_default_raised)

text \<open>
  C1, amended: whenever the processing of a device returns, and whenever the whole of
  \<open>updateConfiguration\<close> returns, every session that was opened has been closed
  exactly once, after its last stage and before the next address: on success and on
  the failure of any stage. When a stage call of a device raises, it is the last call
  made: no close precedes or follows it, and the exception leaves
  \<open>updateConfiguration\<close> whatever addresses come after.
\<close>

theorem sessions_closed_once:
  "(fst (process_device renders cfg tr user password enable_password st0 ip w0) = Inr st1 \<longrightarrow>
      closed_once None
        (snd (snd (process_device renders cfg tr user password enable_password st0 ip w0))))
   \<and> (fst (updateConfiguration renders cfg tr iplist user password enable_password w) = Inr st \<longrightarrow>
      closed_once None
        (snd (snd (updateConfiguration renders cfg tr iplist user password enable_password w))))
   \<and> (updateConfiguration renders cfg tr before user password enable_password w
         = (Inr st0, w0, log0)
       \<and> process_device renders cfg tr user password enable_password st0 ip w0
         = (res, w1, pre @ ev # post)
       \<and> stage_raised ev = Some e \<longrightarrow>
      post = [] \<and> res = Inl e \<and> \<not> list_ex is_close (pre @ [ev])
      \<and> updateConfiguration renders cfg tr (before @ ip # after) user password enable_password w
          = (Inl e, w1, log0 @ pre @ [ev]))"
proof -
  have one: "fst (process_device renders cfg tr user password enable_password st0 ip w0) = Inr st1
      \<longrightarrow> closed_once None
        (snd (snd (process_device renders cfg tr user password enable_password st0 ip w0)))"
  proof
    assume "fst (process_device renders cfg tr user password enable_password st0 ip w0) = Inr st1"
    then obtain w1 log where
      "process_device renders cfg tr user password enable_password st0 ip w0 = (Inr st1, w1, log)"
      by (cases "process_device renders cfg tr user password enable_password st0 ip w0") simp
    then show "closed_once None
        (snd (snd (process_device renders cfg tr user password enable_password st0 ip w0)))"
      using process_device_closed [of renders cfg tr user password enable_password st0 ip w0 st1
          w1 log]
      by simp
  qed
  have whole: "fst (updateConfiguration renders cfg tr iplist user password enable_password w)
        = Inr st
      \<longrightarrow> closed_once None
        (snd (snd (updateConfiguration renders cfg tr iplist user password enable_password w)))"
  proof
    assume "fst (updateConfiguration renders cfg tr iplist user password enable_password w)
        = Inr st"
    then obtain w' log where
      "for_each_ip renders cfg tr user password enable_password iplist
         \<lparr>errors = [], success = []\<rparr> w = (Inr st, w', log)"
      by (cases "for_each_ip renders cfg tr user password enable_password iplist
          \<lparr>errors = [], success = []\<rparr> w") (simp add: updateConfiguration_def)
    then show "closed_once None
        (snd (snd (updateConfiguration renders cfg tr iplist user password enable_password w)))"
      using for_each_ip_closed [of renders cfg tr user password enable_password iplist _ w st
          w' log]
      by (simp add: updateConfiguration_def)
  qed
  have raise: "updateConfiguration renders cfg tr before user password enable_password w
         = (Inr st0, w0, log0)
       \<and> process_device renders cfg tr user password enable_password st0 ip w0
         = (res, w1, pre @ ev # post)
       \<and> stage_raised ev = Some e \<longrightarrow>
      post = [] \<and> res = Inl e \<and> \<not> list_ex is_close (pre @ [ev])
      \<and> updateConfiguration renders cfg tr (before @ ip # after) user password enable_password w
          = (Inl e, w1, log0 @ pre @ [ev])"
  proof
    assume hyp: "updateConfiguration renders cfg tr before user password enable_password w
           = (Inr st0, w0, log0)
         \<and> process_device renders cfg tr user password enable_password st0 ip w0
           = (res, w1, pre @ ev # post)
         \<and> stage_raised ev = Some e"
    then have last: "post = []" "res = Inl e" "\<not> list_ex is_close pre"
      using process_device_raised [of renders cfg tr user password enable_password st0 ip w0 res
          w1 pre ev post e]
      by simp_all
    have not_close: "\<not> is_close ev"
      using hyp by (cases ev) simp_all
    have "updateConfiguration renders cfg tr (before @ ip # after) user password enable_password w
            = (Inl e, w1, log0 @ pre @ [ev])"
      using hyp last by (simp add: updateConfiguration_def for_each_ip_append)
    with last not_close
    show "post = [] \<and> res = Inl e \<and> \<not> list_ex is_close (pre @ [ev])
        \<and> updateConfiguration renders cfg tr (before @ ip # after) user password enable_password w
            = (Inl e, w1, log0 @ pre @ [ev])"
      by simp
  qed
  from one whole raise show ?thesis
    by (intro conjI)
qed

theorem sessions_closed_once_witness:
  "fst (process_device plain_markup shipped_settings (simulated mixed_fleet) ''admin'' ''pw''
          None \<lparr>errors = [], success = []\<rparr> ''10.0.0.4'' 0)
     = Inr \<lparr>errors = [(''10.0.0.4'', ''rejected'')], success = []\<rparr>
   \<and> closed_once None
        (snd (snd (process_device plain_markup shipped_settings (simulated mixed_fleet)
          ''admin'' ''pw'' None \<lparr>errors = [], success = []\<rparr> ''10.0.0.4'' 0)))
   \<and> fst (updateConfiguration plain_markup shipped_settings (simulated mixed_fleet)
          [''10.0.0.1'', ''10.0.0.2'', ''10.0.0.3'', ''10.0.0.4'', ''10.0.0.5'']
          ''admin'' ''pw'' None 0)
     = Inr \<lparr>errors = [(''10.0.0.2'', ''registration failed''), (''10.0.0.3'', ''denied''),
                      (''10.0.0.4'', ''rejected''), (''10.0.0.5'', ''no such profile'')],
            success = [''10.0.0.1'']\<rparr>
   \<and> closed_once None
        (snd (snd (updateConfiguration plain_markup shipped_settings (simulated mixed_fleet)
          [''10.0.0.1'', ''10.0.0.2'', ''10.0.0.3'', ''10.0.0.4'', ''10.0.0.5'']
          ''admin'' ''pw'' None 0)))
   \<and> updateConfiguration plain_markup shipped_settings (simulated stalling_fleet)
        ([] @ ''10.0.0.1'' # [''10.0.0.2'']) ''admin'' ''pw'' None 0
     = (Inl (OtherScrapliError ''timed out''), 1,
        [] @ [EvOpen (device_params ''10.0.0.1'' ''admin'' ''pw'' None) (Inr ())]
        @ [EvSendConfigs (device_params ''10.0.0.1'' ''admin'' ''pw'' None)
             (REMOVE_SSM_CONFIG shipped_settings) (Inl (OtherScrapliError ''timed out''))])"
proof -
  have one: "fst (process_device plain_markup shipped_settings (simulated mixed_fleet)
          ''admin'' ''pw'' None \<lparr>errors = [], success = []\<rparr> ''10.0.0.4'' 0)
     = Inr \<lparr>errors = [(''10.0.0.4'', ''rejected'')], success = []\<rparr>"
    by code_simp
  have returned: "fst (updateConfiguration plain_markup shipped_settings (simulated mixed_fleet)
          [''10.0.0.1'', ''10.0.0.2'', ''10.0.0.3'', ''10.0.0.4'', ''10.0.0.5'']
          ''admin'' ''pw'' None 0)
     = Inr \<lparr>errors = [(''10.0.0.2'', ''registration failed''), (''10.0.0.3'', ''denied''),
                      (''10.0.0.4'', ''rejected''), (''10.0.0.5'', ''no such profile'')],
            success = [''10.0.0.1'']\<rparr>"
    by code_simp
  have before: "updateConfiguration plain_markup shipped_settings (simulated stalling_fleet)
        [] ''admin'' ''pw'' None 0 = (Inr \<lparr>errors = [], success = []\<rparr>, 0, [])"
    by (simp add: updateConfiguration_def)
  have raised: "process_device plain_markup shipped_settings (simulated stalling_fleet)
        ''admin'' ''pw'' None \<lparr>errors = [], success = []\<rparr> ''10.0.0.1'' 0
     = (Inl (OtherScrapliError ''timed out''), 1,
        [EvOpen (device_params ''10.0.0.1'' ''admin'' ''pw'' None) (Inr ())]
        @ EvSendConfigs (device_params ''10.0.0.1'' ''admin'' ''pw'' None)
            (REMOVE_SSM_CONFIG shipped_settings) (Inl (OtherScrapliError ''timed out''))
        # [])"
    by code_simp
  have exc: "stage_raised (EvSendConfigs (device_params ''10.0.0.1'' ''admin'' ''pw'' None)
            (REMOVE_SSM_CONFIG shipped_settings) (Inl (OtherScrapliError ''timed out'')))
      = Some (OtherScrapliError ''timed out'')"
    by simp
  note t = sessions_closed_once [where renders = plain_markup and cfg = shipped_settings
      and tr = "simulated mixed_fleet" and user = "''admin''" and password = "''pw''"
      and enable_password = None and ?st0.0 = "\<lparr>errors = [], success = []\<rparr>"
      and ip = "''10.0.0.4''" and ?w0.0 = 0
      and ?st1.0 = "\<lparr>errors = [(''10.0.0.4'', ''rejected'')], success = []\<rparr>"
      and iplist = "[''10.0.0.1'', ''10.0.0.2'', ''10.0.0.3'', ''10.0.0.4'', ''10.0.0.5'']"
      and w = 0
      and st = "\<lparr>errors = [(''10.0.0.2'', ''registration failed''), (''10.0.0.3'', ''denied''),
                      (''10.0.0.4'', ''rejected''), (''10.0.0.5'', ''no such profile'')],
            success = [''10.0.0.1'']\<rparr>"]
  note u = sessions_closed_once [where renders = plain_markup and cfg = shipped_settings
      and tr = "simulated stalling_fleet" and user = "''admin''" and password = "''pw''"
      and enable_password = None and ?st0.0 = "\<lparr>errors = [], success = []\<rparr>"
      and ip = "''10.0.0.1''" and ?w0.0 = 0 and w = 0 and before = "[]" and ?log0.0 = "[]"
      and after = "[''10.0.0.2'']",
      THEN conjunct2, THEN conjunct2, rule_format, OF conjI [OF before conjI [OF raised exc]]]
  show ?thesis
    using one returned t [THEN conjunct1, rule_format, OF one]
      t [THEN conjunct2, THEN conjunct1, rule_format, OF returned]
      u [THEN conjunct2, THEN conjunct2, THEN conjunct2]
    by (intro conjI)
qed

text \<open>
  C1 as stated fails: when the driver raises during a stage, the exception leaves
  \<open>updateConfiguration\<close> and the open session is never closed.
\<close>

theorem stage_exception_skips_close:
  "updateConfiguration plain_markup shipped_settings (simulated stalling_fleet)
      [''10.0.0.1'', ''10.0.0.2''] ''admin'' ''pw'' None 0
     = (Inl (OtherScrapliError ''timed out''), 1,
        [EvOpen (device_params ''10.0.0.1'' ''admin'' ''pw'' None) (Inr ()),
         EvSendConfigs (device_params ''10.0.0.1'' ''admin'' ''pw'' None)
           (REMOVE_SSM_CONFIG shipped_settings) (Inl (OtherScrapliError ''timed out''))])
   \<and> \<not> closed_once None
        (snd (snd (updateConfiguration plain_markup shipped_settings (simulated stalling_fleet)
           [''10.0.0.1'', ''10.0.0.2''] ''admin'' ''pw'' None 0)))"
  by code_simp

section \<open>Properties of the report\<close>

text \<open>
  What an iteration that returns does to the status: the entry follows the first
  failure of its calls, and an iteration without a failure adds a success.
\<close>

lemma close_session_entry:
  "close_session tr c st w = (Inr st', w', log) \<Longrightarrow> st' = st \<and> first_failure log = None"
  by (auto simp: close_session_def Let_def split: prod.splits sum.splits)

lemma register_license_entry:
  "register_license cfg tr c st ip w = (Inr st', w', log) \<Longrightarrow>
     (case first_failure log of Some m \<Rightarrow> st' = set_error ip m st | None \<Rightarrow> st' = add_success ip st)"
  by (auto simp: register_license_def Let_def split: prod.splits sum.splits if_splits
      dest!: close_session_entry)

lemma apply_config_entry:
  "apply_config cfg tr c st ip w = (Inr st', w', log) \<Longrightarrow>
     (case first_failure log of Some m \<Rightarrow> st' = set_error ip m st | None \<Rightarrow> st' = add_success ip st)"
  by (auto simp: apply_config_def Let_def split: prod.splits sum.splits if_splits
      dest!: close_session_entry register_license_entry)

lemma remove_default_entry:
  "remove_default renders cfg tr c st ip w = (Inr st', w', log) \<Longrightarrow>
     (case first_failure log of Some m \<Rightarrow> st' = set_error ip m st | None \<Rightarrow> st' = add_success ip st)"
  by (auto simp: remove_default_def console_print_def Let_def
      split: prod.splits sum.splits if_splits
      dest!: close_session_entry apply_config_entry)

lemma process_device_entry:
  "process_device renders cfg tr user password en st ip w = (Inr st', w', log) \<Longrightarrow>
     (case first_failure log of Some m \<Rightarrow> st' = set_error ip m st | None \<Rightarrow> st' = add_success ip st)"
  by (auto simp: process_device_def console_print_def connectSSH_cases Let_def truthy_def
      split: prod.splits sum.splits if_splits option.splits exn.splits
      dest!: remove_default_entry)

lemma process_device_records:
  "process_device renders cfg tr user password en st ip w = (Inr st', w', log) \<Longrightarrow>
     (\<exists>m. st' = set_error ip m st) \<or> st' = add_success ip st"
  by (drule process_device_entry) (auto split: option.splits)


lemma length_update_fresh: "k \<notin> fst ` set al \<Longrightarrow> length (AList.update k v al) = Suc (length al)"
  by (induction al) auto

lemma set_error_buckets:
  "success (set_error ip m st) = success st"
  "fst ` set (errors (set_error ip m st)) = insert ip (fst ` set (errors st))"
  "distinct (map fst (errors (set_error ip m st))) = distinct (map fst (errors st))"
  "ip \<notin> fst ` set (errors st) \<Longrightarrow> length (errors (set_error ip m st)) = Suc (length (errors st))"
  by (auto simp add: set_error_def dom_update update_keys length_update_fresh)

lemma add_success_buckets:
  "success (add_success ip st) = success st @ [ip]"
  "errors (add_success ip st) = errors st"
  by (simp_all add: add_success_def)

lemma recorded_step:
  assumes "(\<exists>m. st' = set_error ip m st) \<or> st' = add_success ip st"
  shows "recorded st' = insert ip (recorded st)"
  using assms
  by (elim disjE exE) (simp_all add: recorded_def set_error_buckets add_success_buckets)

lemma one_bucket_step:
  assumes "(\<exists>m. st' = set_error ip m st) \<or> st' = add_success ip st"
    and "ip \<notin> recorded st" and "one_bucket_each st"
  shows "one_bucket_each st'
       \<and> length (success st') + length (errors st') = Suc (length (success st) + length (errors st))"
  using assms
  by (elim disjE exE)
    (simp_all add: recorded_def one_bucket_each_def set_error_buckets add_success_buckets)

lemma for_each_ip_recorded:
  "for_each_ip renders cfg tr user password en iplist st w = (Inr st', w', log) \<Longrightarrow>
     recorded st' = recorded st \<union> set iplist"
proof (induction iplist arbitrary: st w log)
  case Nil
  then show ?case by simp
next
  case (Cons ip iplist)
  from Cons.prems obtain st1 w1 log1 log2 where
    first: "process_device renders cfg tr user password en st ip w = (Inr st1, w1, log1)" and
    rest: "for_each_ip renders cfg tr user password en iplist st1 w1 = (Inr st', w', log2)"
    by (auto split: prod.splits sum.splits)
  have "recorded st1 = insert ip (recorded st)"
    using process_device_records [OF first] by (rule recorded_step)
  with Cons.IH [OF rest] show ?case
    by auto
qed

lemma for_each_ip_one_bucket:
  assumes "for_each_ip renders cfg tr user password en iplist st w = (Inr st', w', log)"
    and "distinct iplist" and "set iplist \<inter> recorded st = {}" and "one_bucket_each st"
  shows "one_bucket_each st'
       \<and> length (success st') + length (errors st')
           = length (success st) + length (errors st) + length iplist"
  using assms
proof (induction iplist arbitrary: st w log)
  case Nil
  then show ?case by simp
next
  case (Cons ip iplist)
  from Cons.prems(1) obtain st1 w1 log1 log2 where
    first: "process_device renders cfg tr user password en st ip w = (Inr st1, w1, log1)" and
    rest: "for_each_ip renders cfg tr user password en iplist st1 w1 = (Inr st', w', log2)"
    by (auto split: prod.splits sum.splits)
  note step = process_device_records [OF first]
  have fresh: "ip \<notin> recorded st"
    using Cons.prems(3) by auto
  have rec1: "recorded st1 = insert ip (recorded st)"
    using step by (rule recorded_step)
  have inv1: "one_bucket_each st1"
    and len1: "length (success st1) + length (errors st1)
        = Suc (length (success st) + length (errors st))"
    using one_bucket_step [OF step fresh Cons.prems(4)] by simp_all
  have "set iplist \<inter> recorded st1 = {}"
    using Cons.prems(2,3) rec1 by auto
  from Cons.IH [OF rest _ this inv1] Cons.prems(2) len1 show ?case
    by simp
qed

text \<open>
  C2, amended: when the valid addresses of the file are pairwise distinct and the run
  returns, every non-blank line is in exactly one of the three buckets, no address is
  in two of them or twice in one, and the three counts add up to the number of
  non-blank lines.
\<close>

theorem distinct_addresses_one_bucket:
  assumes "fst (run renders ip_address cfg fs tr user password enable_pw w) = Inr (st, bad_ips)"
    and "fs (DEVICE_LIST cfg) = Some file"
    and "distinct (filter ip_address (nonblank_lines file))"
  shows "set (success st) \<union> fst ` set (errors st) = set (filter ip_address (nonblank_lines file))
       \<and> bad_ips = filter (\<lambda>l. \<not> ip_address l) (nonblank_lines file)
       \<and> set (success st) \<union> fst ` set (errors st) \<union> set bad_ips = set (nonblank_lines file)
       \<and> set (success st) \<inter> fst ` set (errors st) = {}
       \<and> set (success st) \<inter> set bad_ips = {}
       \<and> fst ` set (errors st) \<inter> set bad_ips = {}
       \<and> distinct (success st)
       \<and> distinct (map fst (errors st))
       \<and> length (success st) + length (errors st) + length bad_ips = length (nonblank_lines file)"
proof -
  let ?valid = "filter ip_address (nonblank_lines file)"
  let ?invalid = "filter (\<lambda>l. \<not> ip_address l) (nonblank_lines file)"
  have loaded: "loadDeviceList ip_address cfg fs = Inr (?valid, ?invalid)"
    using assms(2) by (simp add: loadDeviceList_def classify_lines_filter)
  obtain w' log where
    loop: "for_each_ip renders cfg tr user password enable_pw ?valid \<lparr>errors = [], success = []\<rparr> w
        = (Inr st, w', log)" and
    bad: "bad_ips = ?invalid"
    using assms(1)
    by (cases "for_each_ip renders cfg tr user password enable_pw ?valid
        \<lparr>errors = [], success = []\<rparr> w")
      (auto simp: run_def loaded updateConfiguration_def split: sum.splits)
  have start: "recorded \<lparr>errors = [], success = []\<rparr> = {}"
    "one_bucket_each \<lparr>errors = [], success = []\<rparr>"
    by (simp_all add: recorded_def one_bucket_each_def)
  have rec: "recorded st = set ?valid"
    using for_each_ip_recorded [OF loop] start by simp
  have inv: "one_bucket_each st"
    and len: "length (success st) + length (errors st) = length ?valid"
    using for_each_ip_one_bucket [OF loop assms(3)] start by simp_all
  have total: "length ?valid + length ?invalid = length (nonblank_lines file)"
    using sum_length_filter_compl [of ip_address "nonblank_lines file"] by simp
  have cover: "set ?valid \<union> set ?invalid = set (nonblank_lines file)"
    by auto
  have apart: "set ?valid \<inter> set ?invalid = {}"
    by auto
  have rec': "set (success st) \<union> fst ` set (errors st) = set ?valid"
    using rec by (simp add: recorded_def)
  show ?thesis
  proof (intro conjI)
    show "set (success st) \<union> fst ` set (errors st) = set ?valid"
      by (rule rec')
    show "bad_ips = ?invalid"
      by (rule bad)
    show "set (success st) \<union> fst ` set (errors st) \<union> set bad_ips = set (nonblank_lines file)"
      using rec' cover bad by simp
    show "set (success st) \<inter> fst ` set (errors st) = {}"
      using inv by (simp add: one_bucket_each_def)
    show "set (success st) \<inter> set bad_ips = {}"
      using rec' apart bad by blast
    show "fst ` set (errors st) \<inter> set bad_ips = {}"
      using rec' apart bad by blast
    show "distinct (success st)"
      using inv by (simp add: one_bucket_each_def)
    show "distinct (map fst (errors st))"
      using inv by (simp add: one_bucket_each_def)
    show "length (success st) + length (errors st) + length bad_ips = length (nonblank_lines file)"
      using len total bad by simp
  qed
qed

theorem distinct_addresses_one_bucket_witness:
  "fst (run plain_markup dotted_quad shipped_settings
          [DEVICE_LIST shipped_settings \<mapsto>
             [''10.0.0.1\<newline>'', ''\<newline>'', ''bad-addr\<newline>'', ''10.0.0.2\<newline>'', ''10.0.0.3'']]
          (simulated mixed_fleet) ''admin'' ''pw'' None 0)
     = Inr (\<lparr>errors = [(''10.0.0.2'', ''registration failed''), (''10.0.0.3'', ''denied'')],
             success = [''10.0.0.1'']\<rparr>,
            [''bad-addr''])
   \<and> length [''10.0.0.1''] + length [(''10.0.0.2'', ''registration failed''), (''10.0.0.3'', ''denied'')]
       + length [''bad-addr'']
     = length (nonblank_lines
         [''10.0.0.1\<newline>'', ''\<newline>'', ''bad-addr\<newline>'', ''10.0.0.2\<newline>'', ''10.0.0.3''])"
proof -
  have finished: "fst (run plain_markup dotted_quad shipped_settings
          [DEVICE_LIST shipped_settings \<mapsto>
             [''10.0.0.1\<newline>'', ''\<newline>'', ''bad-addr\<newline>'', ''10.0.0.2\<newline>'', ''10.0.0.3'']]
          (simulated mixed_fleet) ''admin'' ''pw'' None 0)
     = Inr (\<lparr>errors = [(''10.0.0.2'', ''registration failed''), (''10.0.0.3'', ''denied'')],
             success = [''10.0.0.1'']\<rparr>,
            [''bad-addr''])"
    by code_simp
  have readable: "[DEVICE_LIST shipped_settings \<mapsto>
             [''10.0.0.1\<newline>'', ''\<newline>'', ''bad-addr\<newline>'', ''10.0.0.2\<newline>'', ''10.0.0.3'']]
        (DEVICE_LIST shipped_settings)
      = Some [''10.0.0.1\<newline>'', ''\<newline>'', ''bad-addr\<newline>'', ''10.0.0.2\<newline>'', ''10.0.0.3'']"
    by simp
  have once: "distinct (filter dotted_quad (nonblank_lines
         [''10.0.0.1\<newline>'', ''\<newline>'', ''bad-addr\<newline>'', ''10.0.0.2\<newline>'', ''10.0.0.3'']))"
    by code_simp
  note buckets = distinct_addresses_one_bucket [OF finished readable once]
  from buckets have "length (success \<lparr>errors = [(''10.0.0.2'', ''registration failed''), (''10.0.0.3'', ''denied'')],
             success = [''10.0.0.1'']\<rparr>)
       + length (errors \<lparr>errors = [(''10.0.0.2'', ''registration failed''), (''10.0.0.3'', ''denied'')],
             success = [''10.0.0.1'']\<rparr>)
       + length [''bad-addr'']
     = length (nonblank_lines
         [''10.0.0.1\<newline>'', ''\<newline>'', ''bad-addr\<newline>'', ''10.0.0.2\<newline>'', ''10.0.0.3''])"
    by blast
  with finished show ?thesis
    by simp
qed

text \<open>
  C2 as stated fails: an address listed three times that accepts the first session
  only ends in the success list and in the error dictionary, and the counts add up to
  two for three non-blank lines.
\<close>

theorem repeated_address_two_buckets:
  "fst (run plain_markup dotted_quad shipped_settings
          [DEVICE_LIST shipped_settings \<mapsto> [''10.0.0.1\<newline>'', ''10.0.0.1\<newline>'', ''10.0.0.1\<newline>'']]
          (simulated first_session_only_fleet) ''admin'' ''pw'' None 0)
     = Inr (\<lparr>errors = [(''10.0.0.1'', ''denied'')], success = [''10.0.0.1'']\<rparr>, [])
   \<and> nonblank_lines [''10.0.0.1\<newline>'', ''10.0.0.1\<newline>'', ''10.0.0.1\<newline>'']
     = [''10.0.0.1'', ''10.0.0.1'', ''10.0.0.1'']"
  by code_simp




















end
